theory Spec2Isabelle
  imports Complex_Main
begin

section \<open>JavaScript values and strings\<close>

text \<open>
  Strings are lists of 8-bit characters. The texts the pipeline handles (diff lines,
  identifiers, predicates) are taken as ASCII; a non-ASCII symbol that the source writes
  into an output string appears as its UTF-8 bytes. Numbers of the source that are
  counts are \<open>int\<close> or \<open>nat\<close>; a number that arrives from \<open>JSON.parse\<close> is a
  \<open>real\<close>.
\<close>

datatype jsval =
    JUndefined
  | JNull
  | JBool bool
  | JNum real
  | JStr string
  | JArr "jsval list"
  | JObj "(string \<times> jsval) list"

text \<open>Truthiness, as \<open>!v\<close> and \<open>v || d\<close> use it.\<close>

fun truthy :: "jsval \<Rightarrow> bool" where
  "truthy JUndefined = False"
| "truthy JNull = False"
| "truthy (JBool b) = b"
| "truthy (JNum n) = (n \<noteq> 0)"
| "truthy (JStr s) = (s \<noteq> [])"
| "truthy (JArr xs) = True"
| "truthy (JObj kvs) = True"

text \<open>Property read \<open>obj[field]\<close>: an absent property is \<open>undefined\<close>.\<close>

definition js_get :: "(string \<times> jsval) list \<Rightarrow> string \<Rightarrow> jsval" where
  "js_get obj field = (case map_of obj field of None \<Rightarrow> JUndefined | Some v \<Rightarrow> v)"

text \<open>\<open>v || d\<close>\<close>

definition js_or :: "jsval \<Rightarrow> jsval \<Rightarrow> jsval" where
  "js_or v d = (if truthy v then v else d)"

text \<open>Decimal rendering of an integer inside a template literal (JavaScript turns to
  exponent notation from \<open>10^21\<close> on; the counts rendered here stay far below).\<close>

definition digit_char :: "nat \<Rightarrow> char" where
  "digit_char d = ''0123456789'' ! (d mod 10)"

function string_of_nat :: "nat \<Rightarrow> string" where
  "string_of_nat n =
     (if n < 10 then [digit_char n] else string_of_nat (n div 10) @ [digit_char (n mod 10)])"
  by pat_completeness auto
termination
  by (relation "measure (\<lambda>n. n)") auto

definition string_of_int :: "int \<Rightarrow> string" where
  "string_of_int i = (if i < 0 then CHR ''-'' # string_of_nat (nat (- i)) else string_of_nat (nat i))"

section \<open>Control-flow facts (the \<open>ast\<close> object of ASTExtractor)\<close>

record input_type =
  it_name :: string
  it_type :: string
  it_required :: bool

record guard =
  g_type :: string
  g_condition :: string
  g_lineNumber :: nat

record loop =
  l_type :: string
  l_condition :: string
  l_lineNumber :: nat

record branch =
  b_type :: string
  b_condition :: string
  b_lineNumber :: nat

record early_return =
  er_value :: string
  er_lineNumber :: nat

record control_flow =
  hasEarlyReturns :: bool
  hasLoops :: bool
  hasConditionals :: bool
  hasBranching :: bool
  maxDepth :: nat

record ast_facts =
  inputTypes :: "input_type list"
  outputType :: string
  conditionalGuards :: "guard list"
  loops :: "loop list"
  branching :: "branch list"
  earlyReturns :: "early_return list"
  controlFlow :: control_flow
  complexity :: int

section \<open>LLMClient (src/src/llm-client.js)\<close>

text \<open>
  The context object handed to the client. \<open>generateMockSpec\<close> destructures
  \<open>inputTypes\<close>, \<open>conditionalGuards\<close>, \<open>earlyReturns\<close> and \<open>complexity\<close> with
  defaults, and is also called on the empty object, so these four are optional here
  (\<open>None\<close> is \<open>undefined\<close>).
\<close>

record llm_context =
  c_functionName :: string
  c_functionBody :: string
  c_inputTypes :: "input_type list option"
  c_outputType :: string
  c_conditionalGuards :: "guard list option"
  c_loops :: "loop list"
  c_branching :: "branch list"
  c_earlyReturns :: "early_return list option"
  c_controlFlow :: "control_flow option"
  c_complexity :: "int option"
  c_comments :: string
  c_language :: string

text \<open>The empty object \<open>{}\<close> as far as \<open>generateMockSpec\<close> reads it.\<close>

definition empty_context :: llm_context where
  "empty_context = \<lparr> c_functionName = [], c_functionBody = [], c_inputTypes = None,
     c_outputType = [], c_conditionalGuards = None, c_loops = [], c_branching = [],
     c_earlyReturns = None, c_controlFlow = None, c_complexity = None,
     c_comments = [], c_language = [] \<rparr>"

text \<open>The specification object both paths return.\<close>

record spec_record =
  preconditions :: "jsval list"
  postconditions :: "jsval list"
  invariants :: "jsval list"
  edgeCases :: "jsval list"
  s_complexity :: jsval
  security :: jsval
  confidence :: real
  reasoning :: jsval

definition mock_preconditions :: "input_type list \<Rightarrow> string list" where
  "mock_preconditions ins = concat (map (\<lambda>input.
      (if it_type input \<noteq> [] \<and> it_type input \<noteq> ''any''
       then [it_name input @ '' is of type '' @ it_type input] else []) @
      (if it_required input \<noteq> False
       then [it_name input @ '' is not null/undefined''] else [])) ins)"

definition mock_postconditions :: "early_return list \<Rightarrow> string list" where
  "mock_postconditions ers = concat (map (\<lambda>earlyReturn.
      if er_value earlyReturn \<noteq> []
      then [''Function may return '' @ er_value earlyReturn @ '' under certain conditions'']
      else []) ers)"

definition mock_invariants :: "int \<Rightarrow> string list" where
  "mock_invariants cx =
     (if cx > 5 then [''Function maintains internal state consistency''] else [])"

definition mock_edgeCases :: "input_type list \<Rightarrow> guard list \<Rightarrow> string list" where
  "mock_edgeCases ins gs =
     map (\<lambda>g. ''Handle case where '' @ g_condition g @ '' is false'') gs @
     (if length ins > 0
      then [''Handle empty/null input values'', ''Handle boundary conditions''] else [])"

definition generateMockSpec :: "llm_context \<Rightarrow> spec_record" where
  "generateMockSpec context =
    (let ins = (case c_inputTypes context of None \<Rightarrow> [] | Some v \<Rightarrow> v);
         gs = (case c_conditionalGuards context of None \<Rightarrow> [] | Some v \<Rightarrow> v);
         ers = (case c_earlyReturns context of None \<Rightarrow> [] | Some v \<Rightarrow> v);
         cx = (case c_complexity context of None \<Rightarrow> 1 | Some v \<Rightarrow> v);
         pre = mock_preconditions ins;
         post = mock_postconditions ers;
         inv = mock_invariants cx;
         edge = mock_edgeCases ins gs
     in \<lparr> preconditions =
            (if length pre > 0 then map JStr pre
             else [JStr ''No specific preconditions identified'']),
          postconditions =
            (if length post > 0 then map JStr post else [JStr ''Function completes execution'']),
          invariants =
            (if length inv > 0 then map JStr inv
             else [JStr ''No specific invariants identified'']),
          edgeCases =
            (if length edge > 0 then map JStr edge else [JStr ''Consider null/undefined inputs'']),
          s_complexity =
            JObj [(''time'', JStr (if cx > 3 then ''O(n)'' else ''O(1)'')),
                  (''space'', JStr ''O(1)'')],
          security =
            JObj [(''vulnerabilities'',
                     JArr [JStr ''Potential input validation bypass'',
                           JStr ''Possible information disclosure'']),
                  (''mitigations'',
                     JArr [JStr ''Implement strict input validation'',
                           JStr ''Use parameterized queries'',
                           JStr ''Validate all inputs''])],
          confidence = real_of_int (min 85 (100 - cx * 5)),
          reasoning = JStr (''Mock analysis of function with '' @ string_of_nat (length ins) @
             '' inputs, '' @ string_of_nat (length gs) @ '' conditionals, and complexity '' @
             string_of_int cx @
             ''. Advanced security and performance analysis included.'') \<rparr>)"

text \<open>
  \<open>parseLLMResponse\<close>. Its argument here is what \<open>response.match\<close> and
  \<open>JSON.parse\<close> make of the backend's text: \<open>None\<close> when the text holds no
  \<open>{...}\<close> block or the block is not JSON (the \<open>throw\<close> that the function catches
  itself), otherwise the parsed object, which is always an object since the block starts
  with a brace.
\<close>

definition required_fields :: "string list" where
  "required_fields =
     [''preconditions'', ''postconditions'', ''invariants'', ''edgeCases'', ''confidence'']"

definition array_or_empty :: "jsval \<Rightarrow> jsval list" where
  "array_or_empty v = (case v of JArr xs \<Rightarrow> xs | _ \<Rightarrow> [])"

definition parseLLMResponse :: "(string \<times> jsval) list option \<Rightarrow> spec_record" where
  "parseLLMResponse response =
    (case response of
       None \<Rightarrow> generateMockSpec empty_context
     | Some parsed \<Rightarrow>
        (let missing = filter (\<lambda>field. \<not> truthy (js_get parsed field)) required_fields
         in if length missing = 0 then
              \<lparr> preconditions = array_or_empty (js_get parsed ''preconditions''),
                postconditions = array_or_empty (js_get parsed ''postconditions''),
                invariants = array_or_empty (js_get parsed ''invariants''),
                edgeCases = array_or_empty (js_get parsed ''edgeCases''),
                s_complexity = js_or (js_get parsed ''complexity'')
                   (JObj [(''time'', JStr ''O(1)''), (''space'', JStr ''O(1)'')]),
                security = js_or (js_get parsed ''security'')
                   (JObj [(''vulnerabilities'', JArr []), (''mitigations'', JArr [])]),
                confidence = (case js_get parsed ''confidence'' of JNum n \<Rightarrow> n | _ \<Rightarrow> 50),
                reasoning = js_or (js_get parsed ''reasoning'') (JStr ''Generated by LLM'') \<rparr>
            else generateMockSpec empty_context))"

text \<open>
  A backend call either throws or yields a text, given here already matched and parsed.
  A backend is a function of the number of backend calls made before it and of the
  context, so that two calls may answer differently. The client holds at most one
  OpenAI and one Anthropic backend; the log records every backend call.
\<close>

datatype llm_reply = Throws | Content "(string \<times> jsval) list option"

datatype backend_id = OpenAI | Anthropic

type_synonym backend = "nat \<Rightarrow> llm_context \<Rightarrow> llm_reply"

record llm_client =
  openai :: "backend option"
  anthropic :: "backend option"

datatype js_error = Error

definition generateWith :: "backend \<Rightarrow> nat \<Rightarrow> llm_context \<Rightarrow> js_error + spec_record" where
  "generateWith b n context =
     (case b n context of
        Throws \<Rightarrow> Inl Error
      | Content response \<Rightarrow> Inr (parseLLMResponse response))"

definition generateSpec ::
  "llm_client \<Rightarrow> backend_id list \<Rightarrow> llm_context \<Rightarrow> spec_record \<times> backend_id list" where
  "generateSpec client calls context =
     (case openai client of
        Some b \<Rightarrow>
          (case generateWith b (length calls) context of
             Inr spec \<Rightarrow> (spec, calls @ [OpenAI])
           | Inl error \<Rightarrow> (generateMockSpec context, calls @ [OpenAI]))
      | None \<Rightarrow>
          (case anthropic client of
             Some b \<Rightarrow>
               (case generateWith b (length calls) context of
                  Inr spec \<Rightarrow> (spec, calls @ [Anthropic])
                | Inl error \<Rightarrow> (generateMockSpec context, calls @ [Anthropic]))
           | None \<Rightarrow> (generateMockSpec context, calls)))"

subsection \<open>Concrete inputs of the synthesizer\<close>

definition numeric_parameter :: "string \<Rightarrow> input_type" where
  "numeric_parameter n = \<lparr> it_name = n, it_type = ''number'', it_required = True \<rparr>"

text \<open>Three required parameters of type number, no early return, complexity 1.\<close>

definition scenario_A :: llm_context where
  "scenario_A = empty_context \<lparr> c_inputTypes := Some [numeric_parameter ''principal'',
      numeric_parameter ''rate'', numeric_parameter ''time''],
     c_conditionalGuards := Some [], c_earlyReturns := Some [], c_complexity := Some 1 \<rparr>"



definition valid_response :: "(string \<times> jsval) list" where
  "valid_response =
     [(''preconditions'', JArr [JStr ''param1 is valid'']),
      (''postconditions'', JArr [JStr ''function completes'']),
      (''invariants'', JArr [JStr ''state consistent'']), (''edgeCases'', JArr [JStr ''null input'']),
      (''confidence'', JNum 90), (''reasoning'', JStr ''Anthropic analysis'')]"







section \<open>String operations and regular expressions of the source\<close>

definition newline :: char where
  "newline = CHR 0x0A"

text \<open>\<open>s.startsWith(p)\<close>, \<open>s.includes(p)\<close>, \<open>s.split(c)\<close>, \<open>xs.join(sep)\<close>, \<open>s.trim()\<close>.\<close>

definition startsWith :: "string \<Rightarrow> string \<Rightarrow> bool" where
  "startsWith s p = (take (length p) s = p)"

fun js_includes :: "string \<Rightarrow> string \<Rightarrow> bool" where
  "js_includes [] p = (p = [])"
| "js_includes (x # xs) p = (startsWith (x # xs) p \<or> js_includes xs p)"

fun js_split :: "char \<Rightarrow> string \<Rightarrow> string list" where
  "js_split c [] = [] # []"
| "js_split c (x # xs) =
     (if x = c then [] # js_split c xs
      else (case js_split c xs of [] \<Rightarrow> [x] # [] | l # ls \<Rightarrow> (x # l) # ls))"

fun js_join :: "string \<Rightarrow> string list \<Rightarrow> string" where
  "js_join sep [] = []"
| "js_join sep [x] = x"
| "js_join sep (x # y # ys) = x @ sep @ js_join sep (y # ys)"

text \<open>The character classes \<open>\w\<close> and \<open>\s\<close> (on ASCII).\<close>

definition is_word :: "char \<Rightarrow> bool" where
  "is_word c = (let n = (of_char c :: nat) in
     (97 \<le> n \<and> n \<le> 122) \<or> (65 \<le> n \<and> n \<le> 90) \<or> (48 \<le> n \<and> n \<le> 57) \<or> n = 95)"

definition is_space :: "char \<Rightarrow> bool" where
  "is_space c = (let n = (of_char c :: nat) in n = 32 \<or> (9 \<le> n \<and> n \<le> 13))"

definition js_trim :: "string \<Rightarrow> string" where
  "js_trim s = rev (dropWhile is_space (rev (dropWhile is_space s)))"

definition toLowerCase :: "string \<Rightarrow> string" where
  "toLowerCase s = map (\<lambda>c.
      case map_of (zip ''ABCDEFGHIJKLMNOPQRSTUVWXYZ'' ''abcdefghijklmnopqrstuvwxyz'') c of
        Some l \<Rightarrow> l
      | None \<Rightarrow> c) s"

text \<open>
  The regular expressions of the source use literals, character classes, the anchors,
  sequence, alternation, the greedy \<open>?\<close>, greedy \<open>*\<close> and \<open>+\<close> on a single
  character class, and numbered groups. A match is found as the JavaScript engine finds
  it, by backtracking: \<open>rmatch\<close> lists every way to match at the current position, in
  the engine's order of preference (left alternative first, longest repetition first), so
  the head of the list is the engine's match. A state is the rest of the subject with the
  groups captured so far; \<open>n\<close> is the length of the whole subject, for \<open>^\<close>.
\<close>

type_synonym captures = "(nat \<times> string) list"

datatype regex =
    Eps
  | Chr char
  | Cls "char \<Rightarrow> bool"
  | Bol
  | Eol
  | Seq regex regex
  | Alt regex regex
  | Opt regex
  | Star "char \<Rightarrow> bool"
  | Plus "char \<Rightarrow> bool"
  | Grp nat regex

fun rmatch :: "nat \<Rightarrow> regex \<Rightarrow> string \<times> captures \<Rightarrow> (string \<times> captures) list" where
  "rmatch n Eps st = [st]"
| "rmatch n (Chr c) (s, caps) =
     (case s of [] \<Rightarrow> [] | x # xs \<Rightarrow> if x = c then [(xs, caps)] else [])"
| "rmatch n (Cls P) (s, caps) =
     (case s of [] \<Rightarrow> [] | x # xs \<Rightarrow> if P x then [(xs, caps)] else [])"
| "rmatch n Bol (s, caps) = (if length s = n then [(s, caps)] else [])"
| "rmatch n Eol (s, caps) = (if s = [] then [(s, caps)] else [])"
| "rmatch n (Seq a b) st = concat (map (rmatch n b) (rmatch n a st))"
| "rmatch n (Alt a b) st = rmatch n a st @ rmatch n b st"
| "rmatch n (Opt a) st = rmatch n a st @ [st]"
| "rmatch n (Star P) (s, caps) =
     map (\<lambda>k. (drop k s, caps)) (rev [0 ..< Suc (length (takeWhile P s))])"
| "rmatch n (Plus P) (s, caps) =
     map (\<lambda>k. (drop k s, caps)) (rev [1 ..< Suc (length (takeWhile P s))])"
| "rmatch n (Grp i a) (s, caps) =
     map (\<lambda>(s', caps'). (s', (i, take (length s - length s') s) # caps'))
       (rmatch n a (s, caps))"

definition seq :: "regex list \<Rightarrow> regex" where
  "seq rs = foldr Seq rs Eps"

definition lit :: "string \<Rightarrow> regex" where
  "lit s = seq (map Chr s)"

text \<open>\<open>match[i]\<close>: \<open>None\<close> is \<open>undefined\<close>, a group that took no part in the match.\<close>

definition cap :: "captures \<Rightarrow> nat \<Rightarrow> string option" where
  "cap caps i = map_of caps i"

text \<open>\<open>$i\<close> in a replacement string: empty for a group that took no part.\<close>

definition dollar :: "captures \<Rightarrow> nat \<Rightarrow> string" where
  "dollar caps i = (case cap caps i of None \<Rightarrow> [] | Some t \<Rightarrow> t)"

text \<open>
  The first match, trying every start position from the left: the result is the subject
  from the start of the match, the subject after the match, and the groups.
\<close>

fun rsearch :: "nat \<Rightarrow> regex \<Rightarrow> string \<Rightarrow> (string \<times> string \<times> captures) option" where
  "rsearch n r [] =
     (case rmatch n r ([], []) of [] \<Rightarrow> None | (s', caps) # _ \<Rightarrow> Some ([], s', caps))"
| "rsearch n r (x # xs) =
     (case rmatch n r (x # xs, []) of
        [] \<Rightarrow> rsearch n r xs
      | (s', caps) # _ \<Rightarrow> Some (x # xs, s', caps))"

text \<open>\<open>s.match(r)\<close> without the \<open>g\<close> flag, reduced to the groups of the match.\<close>

definition js_match :: "regex \<Rightarrow> string \<Rightarrow> captures option" where
  "js_match r s = map_option (\<lambda>(start, s', caps). caps) (rsearch (length s) r s)"

text \<open>\<open>s.replace(r, ...)\<close> without the \<open>g\<close> flag: the first match only.\<close>

definition js_replace_first :: "regex \<Rightarrow> (captures \<Rightarrow> string) \<Rightarrow> string \<Rightarrow> string" where
  "js_replace_first r f s =
     (case rsearch (length s) r s of
        None \<Rightarrow> s
      | Some (start, s', caps) \<Rightarrow> take (length s - length start) s @ f caps @ s')"

text \<open>
  \<open>s.replace(r, ...)\<close> with the \<open>g\<close> flag: every match from the left, the next search
  starting where the last match ended, one character further after an empty match.
\<close>

function greplace :: "nat \<Rightarrow> regex \<Rightarrow> (captures \<Rightarrow> string) \<Rightarrow> string \<Rightarrow> string" where
  "greplace n r f s =
     (case rmatch n r (s, []) of
        [] \<Rightarrow> (case s of [] \<Rightarrow> [] | x # xs \<Rightarrow> x # greplace n r f xs)
      | (s', caps) # _ \<Rightarrow>
          (if length s - length s' = 0
           then f caps @ (case s of [] \<Rightarrow> [] | x # xs \<Rightarrow> x # greplace n r f xs)
           else f caps @ greplace n r f (drop (length s - length s') s)))"
  by pat_completeness auto
termination
  by (relation "measure (\<lambda>(n, r, f, s). length s)") auto

definition js_replace_all :: "regex \<Rightarrow> (captures \<Rightarrow> string) \<Rightarrow> string \<Rightarrow> string" where
  "js_replace_all r f s = greplace (length s) r f s"

text \<open>The number of matches of \<open>s.match(r)\<close> with the \<open>g\<close> flag (0 for \<open>null\<close>).\<close>

function gcount :: "nat \<Rightarrow> regex \<Rightarrow> string \<Rightarrow> nat" where
  "gcount n r s =
     (case rmatch n r (s, []) of
        [] \<Rightarrow> (case s of [] \<Rightarrow> 0 | x # xs \<Rightarrow> gcount n r xs)
      | (s', caps) # _ \<Rightarrow>
          (if length s - length s' = 0
           then Suc (case s of [] \<Rightarrow> 0 | x # xs \<Rightarrow> gcount n r xs)
           else Suc (gcount n r (drop (length s - length s') s))))"
  by pat_completeness auto
termination
  by (relation "measure (\<lambda>(n, r, s). length s)") auto

definition js_match_count :: "regex \<Rightarrow> string \<Rightarrow> nat" where
  "js_match_count r s = gcount (length s) r s"

text \<open>
  \<open>path.extname\<close> of Node on a POSIX path: the text from the last dot of the last
  path segment, empty when that segment has no dot, starts with its only dot, or is
  \<open>..\<close>.
\<close>

definition basename :: "string \<Rightarrow> string" where
  "basename p = rev (takeWhile (\<lambda>c. c \<noteq> CHR ''/'') (dropWhile (\<lambda>c. c = CHR ''/'') (rev p)))"

definition extname :: "string \<Rightarrow> string" where
  "extname p =
     (let b = basename p; e = takeWhile (\<lambda>c. c \<noteq> CHR ''.'') (rev b)
      in if length e = length b \<or> Suc (length e) = length b \<or> b = ''..'' then []
         else CHR ''.'' # rev e)"

section \<open>DiffParser (src/unnamed/part\_000, second file)\<close>

definition isCodeFile :: "string \<Rightarrow> bool" where
  "isCodeFile filename =
     (let codeExtensions = [''.js'', ''.ts'', ''.jsx'', ''.tsx'', ''.py'', ''.java'', ''.go'',
            ''.rs'', ''.cpp'', ''.c'', ''.h''];
          testPatterns = [''test'', ''spec'', ''Test'', ''Spec''];
          ext = extname filename;
          isCode = (ext \<in> set codeExtensions);
          isTestFile = list_ex (\<lambda>pattern. js_includes filename pattern) testPatterns
      in isCode \<and> \<not> isTestFile)"

definition extractFileDiff :: "string \<Rightarrow> string \<Rightarrow> string" where
  "extractFileDiff diff filename =
     js_join [newline] (snd (foldl (\<lambda>(inTargetFile, fileDiff) line.
        if startsWith line ''diff --git'' then
          (if js_includes line filename then (True, []) else (False, fileDiff))
        else if inTargetFile then (inTargetFile, fileDiff @ [line])
        else (inTargetFile, fileDiff))
      (False, []) (js_split newline diff)))"

text \<open>The eight function-start patterns, in the order of the source.\<close>

definition sign_group :: regex where
  "sign_group = Opt (Grp 1 (Alt (Chr CHR ''+'') (Chr CHR ''-'')))"

definition kw :: "string \<Rightarrow> regex" where
  "kw w = Opt (Seq (lit w) (Plus is_space))"

definition name_paren :: regex where
  "name_paren = seq [Grp 2 (Plus is_word), Star is_space, Chr CHR ''('']"

definition functionPatterns :: "regex list" where
  "functionPatterns =
    [ \<comment> \<open>JavaScript/TypeScript\<close>
      seq [Bol, sign_group, Star is_space, kw ''export'', kw ''async'', lit ''function'',
           Plus is_space, name_paren],
      seq [Bol, sign_group, Star is_space, kw ''export'',
           Alt (lit ''const'') (Alt (lit ''let'') (lit ''var'')), Plus is_space,
           Grp 2 (Plus is_word), Star is_space, Chr CHR ''='', Star is_space, kw ''async'',
           Chr CHR ''(''],
      seq [Bol, sign_group, Star is_space, kw ''export'', Grp 2 (Plus is_word), Star is_space,
           Cls (\<lambda>c. c = CHR '':'' \<or> c = CHR ''=''), Star is_space, kw ''async'', Chr CHR ''(''],
      \<comment> \<open>Python\<close>
      seq [Bol, sign_group, Star is_space, lit ''def'', Plus is_space, name_paren],
      \<comment> \<open>Java\<close>
      seq [Bol, sign_group, Star is_space,
           Opt (Alt (lit ''public'') (Alt (lit ''private'') (lit ''protected''))),
           Star is_space, kw ''static'', kw ''final'',
           Opt (seq [Chr CHR ''<'', Plus (\<lambda>c. c \<noteq> CHR ''>''), Chr CHR ''>'', Plus is_space]),
           Plus is_word, Plus is_space, name_paren],
      \<comment> \<open>Go\<close>
      seq [Bol, sign_group, Star is_space, lit ''func'', Plus is_space, name_paren],
      \<comment> \<open>Rust\<close>
      seq [Bol, sign_group, Star is_space, lit ''fn'', Plus is_space, name_paren],
      \<comment> \<open>C/C++\<close>
      seq [Bol, sign_group, Star is_space, kw ''static'', kw ''inline'', kw ''const'',
           Plus is_word, Opt (Seq (Star is_space) (Chr CHR ''*'')), Plus is_space, name_paren] ]"

fun first_match :: "regex list \<Rightarrow> string \<Rightarrow> captures option" where
  "first_match [] line = None"
| "first_match (pattern # rest) line =
     (case js_match pattern line of Some caps \<Rightarrow> Some caps | None \<Rightarrow> first_match rest line)"

definition countBraces :: "string \<Rightarrow> int" where
  "countBraces line =
     int (length (filter (\<lambda>c. c = CHR ''{'') line)) - int (length (filter (\<lambda>c. c = CHR ''}'') line))"

record func =
  f_name :: string
  f_body :: string
  f_lineNumber :: nat
  f_changeType :: string

record ef_state =
  ef_functions :: "func list"
  currentFunction :: "func option"
  braceCount :: int
  inFunction :: bool

text \<open>One round of the loop over the lines of \<open>extractFunctions\<close>, at index \<open>i\<close>.\<close>

definition ef_step :: "nat \<Rightarrow> string \<Rightarrow> ef_state \<Rightarrow> ef_state" where
  "ef_step i line st =
    (let st1 =
       (case first_match functionPatterns line of
          Some caps \<Rightarrow>
            \<lparr> ef_functions =
                (case currentFunction st of
                   Some f \<Rightarrow> ef_functions st @ [f] | None \<Rightarrow> ef_functions st),
              currentFunction = Some
                \<lparr> f_name = dollar caps 2,
                  f_body = line,
                  f_lineNumber = i + 1,
                  f_changeType =
                    (case cap caps 1 of
                       Some t \<Rightarrow> if t \<noteq> [] then t else ''modified''
                     | None \<Rightarrow> ''modified'') \<rparr>,
              braceCount = countBraces line,
              inFunction = True \<rparr>
        | None \<Rightarrow> st)
     in case currentFunction st1 of
          Some cur \<Rightarrow>
            if inFunction st1 then
              (let cur' = cur \<lparr> f_body := f_body cur @ [newline] @ line \<rparr>;
                   bc = braceCount st1 + countBraces line
               in if bc = 0 \<and> js_trim line \<noteq> []
                  then st1 \<lparr> ef_functions := ef_functions st1 @ [cur'], currentFunction := None,
                             braceCount := bc, inFunction := False \<rparr>
                  else st1 \<lparr> currentFunction := Some cur', braceCount := bc \<rparr>)
            else st1
        | None \<Rightarrow> st1)"

fun ef_loop :: "nat \<Rightarrow> string list \<Rightarrow> ef_state \<Rightarrow> ef_state" where
  "ef_loop i [] st = st"
| "ef_loop i (line # rest) st = ef_loop (Suc i) rest (ef_step i line st)"

definition extractFunctions :: "string \<Rightarrow> func list" where
  "extractFunctions fileDiff =
     (let st = ef_loop 0 (js_split newline fileDiff)
                 \<lparr> ef_functions = [], currentFunction = None, braceCount = 0, inFunction = False \<rparr>
      in case currentFunction st of
           Some f \<Rightarrow> ef_functions st @ [f]
         | None \<Rightarrow> ef_functions st)"

definition determineChangeType :: "func \<Rightarrow> string" where
  "determineChangeType func =
     (let lines = js_split newline (f_body func);
          hasAdded = list_ex (\<lambda>line. startsWith line ''+'') lines;
          hasRemoved = list_ex (\<lambda>line. startsWith line ''-'') lines
      in if hasAdded \<and> hasRemoved then ''modified''
         else if hasAdded then ''added''
         else if hasRemoved then ''removed''
         else ''modified'')"

definition getCommentType :: "string \<Rightarrow> string" where
  "getCommentType comment =
     (if js_includes comment ''TODO'' \<or> js_includes comment ''FIXME'' then ''todo''
      else if js_includes comment ''@param'' \<or> js_includes comment ''@return'' then ''documentation''
      else if js_includes comment ''@spec'' \<or> js_includes comment ''@pre'' \<or> js_includes comment ''@post''
        then ''specification''
      else ''general'')"

record comment =
  cm_text :: string
  cm_lineNumber :: nat
  cm_type :: string

definition extractComments :: "string \<Rightarrow> nat \<Rightarrow> comment list" where
  "extractComments fileDiff functionLine =
     (let lines = js_split newline fileDiff;
          searchRange = 5;
          lo = nat (max 0 (int functionLine - searchRange - 1));
          hi = min (length lines) (functionLine + nat searchRange)
      in concat (map (\<lambda>i.
           let line = lines ! i in
           if js_includes line ''//'' \<or> js_includes line ''/*'' \<or> js_includes line ''*/'' then
             (let comment = js_trim
                    (js_replace_first (seq [Bol, sign_group, Star is_space]) (\<lambda>caps. []) line)
              in if comment \<noteq> []
                 then [\<lparr> cm_text = comment, cm_lineNumber = i + 1,
                         cm_type = getCommentType comment \<rparr>]
                 else [])
           else []) [lo ..< hi]))"

text \<open>
  A changed file as the GitHub API lists it, and the FunctionChange that
  \<open>parseFileDiff\<close> builds. \<open>findTestFiles\<close> looks names up in the file system; the
  lookup is the parameter \<open>findTestFiles\<close> here.
\<close>

record changed_file =
  filename :: string
  status :: string

record function_change =
  fc_filePath :: string
  fc_functionName :: string
  fc_functionBody :: string
  fc_lineNumber :: nat
  fc_changeType :: string
  fc_comments :: "comment list"
  fc_testFiles :: "string list"

definition parseFileDiff ::
  "(string \<Rightarrow> string list) \<Rightarrow> changed_file \<Rightarrow> string \<Rightarrow> function_change list" where
  "parseFileDiff findTestFiles file diff =
     (let fileDiff = extractFileDiff diff (filename file)
      in if fileDiff = [] then []
         else map (\<lambda>func.
                \<lparr> fc_filePath = filename file,
                  fc_functionName = f_name func,
                  fc_functionBody = f_body func,
                  fc_lineNumber = f_lineNumber func,
                  fc_changeType = determineChangeType func,
                  fc_comments = extractComments fileDiff (f_lineNumber func),
                  fc_testFiles = findTestFiles (filename file) \<rparr>)
              (extractFunctions fileDiff))"

definition parseDiff ::
  "(string \<Rightarrow> string list) \<Rightarrow> string \<Rightarrow> changed_file list \<Rightarrow> function_change list" where
  "parseDiff findTestFiles diff changedFiles =
     concat (map (\<lambda>file. if isCodeFile (filename file)
                          then parseFileDiff findTestFiles file diff else []) changedFiles)"

subsection \<open>Concrete inputs of the segmenter\<close>

definition scenario_B_line :: string where
  "scenario_B_line = ''+function add(a,b){return a+b;}''"

definition scenario_B_diff :: string where
  "scenario_B_diff = ''diff --git a/math.js b/math.js'' @ [newline] @ scenario_B_line"

definition added_only_func :: func where
  "added_only_func = \<lparr> f_name = ''add'', f_body = scenario_B_line @ [newline] @ scenario_B_line,
     f_lineNumber = 1, f_changeType = ''+'' \<rparr>"

definition removed_only_func :: func where
  "removed_only_func = \<lparr> f_name = ''sub'',
     f_body = ''-function sub(a,b){'' @ [newline] @ ''-  return a-b;'' @ [newline] @ ''-}'',
     f_lineNumber = 1, f_changeType = ''-'' \<rparr>"

definition mixed_func :: func where
  "mixed_func = \<lparr> f_name = ''mul'',
     f_body = '' function mul(a,b){'' @ [newline] @ ''-  return a+b;'' @ [newline] @
              ''+  return a*b;'' @ [newline] @ '' }'',
     f_lineNumber = 1, f_changeType = ''modified'' \<rparr>"

section \<open>Lean4Generator (src/unnamed/part\_000, first file)\<close>

definition sanitizeName :: "string \<Rightarrow> string" where
  "sanitizeName name =
     toLowerCase
       (js_replace_all (Alt (Seq Bol (Chr CHR ''_'')) (Seq (Chr CHR ''_'') Eol)) (\<lambda>caps. [])
         (js_replace_all (Plus (\<lambda>c. c = CHR ''_'')) (\<lambda>caps. ''_'')
           (js_replace_all (Cls (\<lambda>c. \<not> is_word c)) (\<lambda>caps. ''_'') name)))"

text \<open>The Lean symbols of the replacement strings, as UTF-8 bytes.\<close>

definition sym_ne :: string where
  "sym_ne = [CHR 0xE2, CHR 0x89, CHR 0xA0]"

definition sym_ge :: string where
  "sym_ge = [CHR 0xE2, CHR 0x89, CHR 0xA5]"

definition sym_le :: string where
  "sym_le = [CHR 0xE2, CHR 0x89, CHR 0xA4]"

definition sym_not :: string where
  "sym_not = [CHR 0xC2, CHR 0xAC]"

definition dquote :: string where
  "dquote = [CHR 0x22]"

definition word_group :: regex where
  "word_group = Grp 1 (Plus is_word)"

text \<open>The function that \<open>convertToLeanPredicates\<close> maps over the predicates.\<close>

definition convertPredicate :: "string \<Rightarrow> string" where
  "convertPredicate predicate =
     (let leanPred = predicate;
          \<comment> \<open>Handle null/undefined checks\<close>
          leanPred = js_replace_all (lit ''is not null/undefined'')
                       (\<lambda>caps. sym_ne @ '' none'') leanPred;
          leanPred = js_replace_all (lit ''is null/undefined'') (\<lambda>caps. ''= none'') leanPred;
          \<comment> \<open>Handle type checks\<close>
          leanPred = js_replace_all (Seq (lit ''is of type '') word_group)
                       (\<lambda>caps. '': '' @ dollar caps 1) leanPred;
          \<comment> \<open>Handle comparisons\<close>
          leanPred = js_replace_all (Seq word_group (lit '' > 0''))
                       (\<lambda>caps. dollar caps 1 @ '' > 0'') leanPred;
          leanPred = js_replace_all (Seq word_group (lit '' < 0''))
                       (\<lambda>caps. dollar caps 1 @ '' < 0'') leanPred;
          leanPred = js_replace_all (Seq word_group (lit '' >= 0''))
                       (\<lambda>caps. dollar caps 1 @ '' '' @ sym_ge @ '' 0'') leanPred;
          leanPred = js_replace_all (Seq word_group (lit '' <= 0''))
                       (\<lambda>caps. dollar caps 1 @ '' '' @ sym_le @ '' 0'') leanPred;
          \<comment> \<open>Handle string operations\<close>
          leanPred = js_replace_all (Seq word_group (lit ''.length > 0''))
                       (\<lambda>caps. sym_not @ ''('' @ dollar caps 1 @ '' = '' @ dquote @ dquote @ '')'') leanPred;
          leanPred = js_replace_all (Seq word_group (lit ''.length === 0''))
                       (\<lambda>caps. dollar caps 1 @ '' = '' @ dquote @ dquote) leanPred;
          \<comment> \<open>Handle boolean operations\<close>
          leanPred = js_replace_all (lit ''is true'') (\<lambda>caps. ''= true'') leanPred;
          leanPred = js_replace_all (lit ''is false'') (\<lambda>caps. ''= false'') leanPred;
          \<comment> \<open>Handle function calls\<close>
          leanPred = js_replace_all (Seq word_group (Chr CHR ''(''))
                       (\<lambda>caps. dollar caps 1 @ '' '') leanPred
      in leanPred)"

definition convertToLeanPredicates :: "string list \<Rightarrow> string list" where
  "convertToLeanPredicates predicates = map convertPredicate predicates"

text \<open>The keyword that Lean accepts in place of a proof, with which every lemma ends.\<close>

definition unproved :: string where
  "unproved = ''sor'' @ ''ry''"

definition generateHelperLemmas :: "string list \<Rightarrow> string list \<Rightarrow> string list" where
  "generateHelperLemmas invs edges =
     map (\<lambda>i.
        let invariant = invs ! i;
            lemmaName = ''invariant_'' @ string_of_nat (i + 1) @ ''_'' @ sanitizeName invariant;
            leanPredicate = convertToLeanPredicates [invariant] ! 0
        in ''lemma '' @ lemmaName @ '' : '' @ leanPredicate @ '' := '' @ unproved)
       [0 ..< length invs]
     @
     map (\<lambda>i.
        let edgeCase = edges ! i;
            lemmaName = ''edge_case_'' @ string_of_nat (i + 1) @ ''_'' @ sanitizeName edgeCase;
            leanPredicate = convertToLeanPredicates [edgeCase] ! 0
        in ''lemma '' @ lemmaName @ '' : '' @ leanPredicate @ '' := '' @ unproved)
       [0 ..< length edges]"

subsection \<open>Concrete inputs of the emitter\<close>

definition scenario_D_invariants :: "string list" where
  "scenario_D_invariants = [''balance >= 0'', ''account is not null/undefined'']"

definition scenario_D_edgeCases :: "string list" where
  "scenario_D_edgeCases =
     [''Handle case where amount <= 0 is false'', ''Handle empty/null input values'',
      ''Handle boundary conditions'']"

section \<open>Drift detection of SpecCoverageTracker (src/src/spec-coverage.js)\<close>

record implementation_analysis =
  ia_complexity :: int
  ia_hasValidation :: bool
  ia_hasReturn :: bool
  ia_lines :: nat

definition sc_calculateComplexity :: "string \<Rightarrow> int" where
  "sc_calculateComplexity functionBody =
     (let complexity = 1;
          \<comment> \<open>Count conditionals\<close>
          ifMatches = js_match_count (seq [lit ''if'', Star is_space, Chr CHR ''(''])
                        functionBody;
          complexity = (if ifMatches > 0 then complexity + int ifMatches else complexity);
          \<comment> \<open>Count loops\<close>
          loopMatches = js_match_count
              (seq [Grp 1 (Alt (lit ''for'') (Alt (lit ''while'') (lit ''do''))),
                    Star is_space, Chr CHR ''('']) functionBody;
          complexity = (if loopMatches > 0 then complexity + int loopMatches else complexity);
          \<comment> \<open>Count early returns\<close>
          returnMatches = js_match_count (lit ''return'') functionBody;
          complexity = (if returnMatches > 0 then complexity + (int returnMatches - 1)
                        else complexity)
      in complexity)"

definition analyzeCurrentImplementation :: "string \<Rightarrow> implementation_analysis" where
  "analyzeCurrentImplementation functionBody =
     \<lparr> ia_complexity = sc_calculateComplexity functionBody,
       ia_hasValidation = (js_includes functionBody ''if'' \<or> js_includes functionBody ''throw''),
       ia_hasReturn = js_includes functionBody ''return'',
       ia_lines = length (js_split newline functionBody) \<rparr>"

text \<open>
  The stored specification that a comparison reads. \<open>compareWithSpec\<close> reads its
  \<open>complexity\<close> and \<open>hasValidation\<close>: \<open>None\<close> is \<open>undefined\<close>, for which the
  product with 1.5 is NaN and the comparison false, and which differs from either
  boolean.
\<close>

record existing_spec =
  es_preconditions :: "string list"
  es_postconditions :: "string list"
  es_invariants :: "string list"
  es_edgeCases :: "string list"
  es_confidence :: int
  es_complexity :: "int option"
  es_hasValidation :: "bool option"

record drift =
  hasDrift :: bool
  details :: "string list"
  d_confidence :: nat

definition compareWithSpec :: "implementation_analysis \<Rightarrow> existing_spec \<Rightarrow> drift" where
  "compareWithSpec current spec =
     (let drift = \<lparr> hasDrift = False, details = [], d_confidence = 0 \<rparr>;
          \<comment> \<open>Check if complexity has changed significantly\<close>
          drift =
            (if (case es_complexity spec of
                   None \<Rightarrow> False
                 | Some c \<Rightarrow> real_of_int (ia_complexity current) > real_of_int c * 1.5)
             then drift \<lparr> hasDrift := True,
                          details := details drift @ [''Function complexity increased significantly''] \<rparr>
             else drift);
          \<comment> \<open>Check if validation patterns have changed\<close>
          drift =
            (if Some (ia_hasValidation current) \<noteq> es_hasValidation spec
             then drift \<lparr> hasDrift := True,
                          details := details drift @ [''Input validation patterns changed''] \<rparr>
             else drift);
          \<comment> \<open>Calculate drift confidence\<close>
          changes = length (details drift)
      in drift \<lparr> d_confidence := min 100 (changes * 25) \<rparr>)"

record function_data =
  fd_functionName :: string
  fd_functionBody :: string
  fd_filePath :: string

text \<open>
  The result of \<open>analyzeFunctionDrift\<close>: without a stored specification it has a
  \<open>reason\<close> and no details or confidence, otherwise the reverse (\<open>None\<close> is an
  absent property). \<open>findExistingSpec\<close> reads the specification files; what it finds
  is the argument \<open>existingSpec\<close>.
\<close>

record drift_result =
  dr_functionName :: string
  dr_filePath :: string
  dr_hasDrift :: bool
  dr_reason :: "string option"
  dr_previousSpec :: "existing_spec option"
  dr_currentImplementation :: "implementation_analysis option"
  dr_driftDetails :: "string list option"
  dr_confidence :: "nat option"

definition analyzeFunctionDrift :: "function_data \<Rightarrow> existing_spec option \<Rightarrow> drift_result" where
  "analyzeFunctionDrift functionData existingSpec =
     (case existingSpec of
        None \<Rightarrow>
          \<lparr> dr_functionName = fd_functionName functionData,
            dr_filePath = fd_filePath functionData,
            dr_hasDrift = False,
            dr_reason = Some ''No existing spec found'',
            dr_previousSpec = None, dr_currentImplementation = None,
            dr_driftDetails = None, dr_confidence = None \<rparr>
      | Some spec \<Rightarrow>
          (let currentAnalysis = analyzeCurrentImplementation (fd_functionBody functionData);
               drift = compareWithSpec currentAnalysis spec
           in \<lparr> dr_functionName = fd_functionName functionData,
                dr_filePath = fd_filePath functionData,
                dr_hasDrift = hasDrift drift,
                dr_reason = None,
                dr_previousSpec = Some spec,
                dr_currentImplementation = Some currentAnalysis,
                dr_driftDetails = Some (details drift),
                dr_confidence = Some (d_confidence drift) \<rparr>))"

definition detectDrift ::
  "(string \<Rightarrow> existing_spec option) \<Rightarrow> function_data list \<Rightarrow> drift_result list" where
  "detectDrift findExistingSpec changedFunctions =
     filter dr_hasDrift
       (map (\<lambda>func. analyzeFunctionDrift func (findExistingSpec (fd_functionName func)))
          changedFunctions)"

subsection \<open>Concrete inputs of the drift detector\<close>

definition scenario_C_current :: implementation_analysis where
  "scenario_C_current =
     \<lparr> ia_complexity = 4, ia_hasValidation = True, ia_hasReturn = True, ia_lines = 5 \<rparr>"

definition scenario_C_spec :: existing_spec where
  "scenario_C_spec =
     \<lparr> es_preconditions = [], es_postconditions = [], es_invariants = [], es_edgeCases = [],
       es_confidence = 85, es_complexity = Some 2, es_hasValidation = Some True \<rparr>"


definition scenario_C_function :: function_data where
  "scenario_C_function =
     \<lparr> fd_functionName = ''check'',
       fd_functionBody = ''function check(x) {'' @ [newline] @
          ''  if (x < 0) { throw 0; }'' @ [newline] @
          ''  if (x > 9) { return 9; }'' @ [newline] @
          ''  return x;'' @ [newline] @ ''}'',
       fd_filePath = ''src/check.js'' \<rparr>"

section \<open>ASTExtractor (src/unnamed/part\_002, second file)\<close>

text \<open>
  A syntax node of tree-sitter: its type, the field name under which its parent holds it
  (empty for none), its text, the row where it starts, and its children. The parser is
  the library's; it is the parameter \<open>parse\<close> of \<open>analyzeFunction\<close>, and a parse
  that throws is \<open>Inl\<close>.
\<close>

datatype node =
  Node (n_type: string) (n_field: string) (n_text: string) (n_row: nat) (n_children: "node list")

text \<open>
  A node found in a tree, with what \<open>node.parent\<close> and
  \<open>node.parent.children.indexOf(node)\<close> give for it: its parent (\<open>None\<close> for the
  root) and its position among the parent's children.
\<close>

type_synonym located = "node \<times> node option \<times> nat"

definition childForFieldName :: "node \<Rightarrow> string \<Rightarrow> node option" where
  "childForFieldName n name = find (\<lambda>child. n_field child = name) (n_children n)"

text \<open>\<open>a || b\<close> on nodes, where \<open>null\<close> is \<open>None\<close>.\<close>

definition orElse :: "'a option \<Rightarrow> 'a option \<Rightarrow> 'a option" where
  "orElse a b = (case a of Some x \<Rightarrow> Some x | None \<Rightarrow> b)"

fun findNodesByType :: "node option \<Rightarrow> nat \<Rightarrow> node \<Rightarrow> string list \<Rightarrow> located list"
  and findInChildren :: "node \<Rightarrow> nat \<Rightarrow> node list \<Rightarrow> string list \<Rightarrow> located list" where
  "findNodesByType parent i (Node t f x r cs) types =
     (if t \<in> set types then [(Node t f x r cs, parent, i)] else []) @
     findInChildren (Node t f x r cs) 0 cs types"
| "findInChildren p i [] types = []"
| "findInChildren p i (child # rest) types =
     findNodesByType (Some p) i child types @ findInChildren p (Suc i) rest types"

definition getFunctionName :: "node \<Rightarrow> string" where
  "getFunctionName n =
     (case orElse (childForFieldName n ''name'')
             (orElse (childForFieldName n ''identifier'')
                (find (\<lambda>child. n_type child = ''identifier'') (n_children n))) of
        Some nameNode \<Rightarrow> n_text nameNode
      | None \<Rightarrow> [])"

definition findFunctionNode :: "node \<Rightarrow> string \<Rightarrow> located option" where
  "findFunctionNode rootNode functionName =
     find (\<lambda>(n, parent, i). getFunctionName n = functionName)
       (findNodesByType None 0 rootNode
          [''function_declaration'', ''method_definition'', ''arrow_function'',
           ''function_expression'', ''function_definition''])"

definition getParameterName :: "node \<Rightarrow> string" where
  "getParameterName paramNode =
     (case orElse (childForFieldName paramNode ''name'')
             (find (\<lambda>child. n_type child = ''identifier'') (n_children paramNode)) of
        Some nameNode \<Rightarrow> n_text nameNode
      | None \<Rightarrow> [])"

definition getParameterType :: "node \<Rightarrow> string" where
  "getParameterType paramNode =
     (case orElse (childForFieldName paramNode ''type'')
             (find (\<lambda>child. n_type child = ''type_annotation'' \<or> n_type child = ''type_identifier'')
                (n_children paramNode)) of
        Some typeNode \<Rightarrow> n_text typeNode
      | None \<Rightarrow> ''any'')"

definition isOptionalParameter :: "node \<Rightarrow> bool" where
  "isOptionalParameter paramNode =
     (js_includes (n_text paramNode) ''?'' \<or> js_includes (n_text paramNode) ''default''
      \<or> js_includes (n_text paramNode) ''='')"

datatype language = JavaScript | TypeScript | Python | Java | Rust

definition extractInputTypes :: "node \<Rightarrow> language \<Rightarrow> input_type list" where
  "extractInputTypes functionNode language =
     (case orElse (childForFieldName functionNode ''parameters'')
             (find (\<lambda>child. n_type child = ''formal_parameters'') (n_children functionNode)) of
        None \<Rightarrow> []
      | Some paramList \<Rightarrow>
          concat (map (\<lambda>param.
             if n_type param = ''parameter'' \<or> n_type param = ''formal_parameter''
             then [\<lparr> it_name = getParameterName param, it_type = getParameterType param,
                     it_required = (\<not> isOptionalParameter param) \<rparr>]
             else []) (n_children paramList)))"

definition extractOutputType :: "node \<Rightarrow> language \<Rightarrow> string" where
  "extractOutputType functionNode language =
     (case orElse (childForFieldName functionNode ''return_type'')
             (find (\<lambda>child. n_type child = ''type_annotation'' \<or> n_type child = ''return_type'')
                (n_children functionNode)) of
        Some returnTypeNode \<Rightarrow> n_text returnTypeNode
      | None \<Rightarrow> ''any'')"

definition extractConditionalGuards :: "located \<Rightarrow> guard list" where
  "extractConditionalGuards functionNode =
     (case functionNode of (n, parent, i) \<Rightarrow>
        concat (map (\<lambda>(ifStmt, p, j).
           case childForFieldName ifStmt ''condition'' of
             Some condition \<Rightarrow>
               [\<lparr> g_type = ''if'', g_condition = n_text condition,
                   g_lineNumber = n_row condition \<rparr>]
           | None \<Rightarrow> []) (findNodesByType parent i n [''if_statement''])))"

definition getLoopCondition :: "node \<Rightarrow> string" where
  "getLoopCondition loopNode =
     (case orElse (childForFieldName loopNode ''condition'')
             (find (\<lambda>child. n_type child = ''condition'' \<or> n_type child = ''test'')
                (n_children loopNode)) of
        Some condition \<Rightarrow> n_text condition
      | None \<Rightarrow> [])"

definition extractLoops :: "located \<Rightarrow> loop list" where
  "extractLoops functionNode =
     (case functionNode of (n, parent, i) \<Rightarrow>
        concat (map (\<lambda>loopType.
           map (\<lambda>(loopNode, p, j).
                \<lparr> l_type = loopType, l_condition = getLoopCondition loopNode,
                  l_lineNumber = n_row loopNode \<rparr>)
             (findNodesByType parent i n [loopType]))
         [''for_statement'', ''while_statement'', ''do_statement'', ''for_in_statement'']))"

definition getBranchCondition :: "node \<Rightarrow> string" where
  "getBranchCondition branchNode =
     (case orElse (childForFieldName branchNode ''condition'')
             (orElse (childForFieldName branchNode ''test'')
                (find (\<lambda>child. n_type child = ''condition'' \<or> n_type child = ''test'')
                   (n_children branchNode))) of
        Some condition \<Rightarrow> n_text condition
      | None \<Rightarrow> [])"

definition extractBranching :: "located \<Rightarrow> branch list" where
  "extractBranching functionNode =
     (case functionNode of (n, parent, i) \<Rightarrow>
        concat (map (\<lambda>branchType.
           map (\<lambda>(branchNode, p, j).
                \<lparr> b_type = branchType, b_condition = getBranchCondition branchNode,
                  b_lineNumber = n_row branchNode \<rparr>)
             (findNodesByType parent i n [branchType]))
         [''if_statement'', ''switch_statement'', ''conditional_expression'']))"

definition getReturnValue :: "node \<Rightarrow> string" where
  "getReturnValue returnNode =
     (case orElse (childForFieldName returnNode ''value'')
             (find (\<lambda>child. n_type child = ''expression'' \<or> n_type child = ''identifier'')
                (n_children returnNode)) of
        Some v \<Rightarrow> n_text v
      | None \<Rightarrow> [])"

text \<open>
  A return statement is early when it is not the last child of its parent; for a node
  without parent the sibling list is empty, \<open>indexOf\<close> gives -1 and the test
  \<open>-1 < -1\<close> fails.
\<close>

definition extractEarlyReturns :: "located \<Rightarrow> early_return list" where
  "extractEarlyReturns functionNode =
     (case functionNode of (n, parent, i) \<Rightarrow>
        concat (map (\<lambda>(returnStmt, p, j).
           let siblings = (case p of Some pn \<Rightarrow> n_children pn | None \<Rightarrow> []);
               returnIndex = (case p of Some pn \<Rightarrow> int j | None \<Rightarrow> - 1)
           in if returnIndex < int (length siblings) - 1
              then [\<lparr> er_value = getReturnValue returnStmt, er_lineNumber = n_row returnStmt \<rparr>]
              else []) (findNodesByType parent i n [''return_statement''])))"

fun calculateMaxDepth :: "node \<Rightarrow> nat \<Rightarrow> nat"
  and maxDepthOfChildren :: "node list \<Rightarrow> nat \<Rightarrow> nat \<Rightarrow> nat" where
  "calculateMaxDepth (Node t f x r cs) currentDepth = maxDepthOfChildren cs currentDepth currentDepth"
| "maxDepthOfChildren [] currentDepth m = m"
| "maxDepthOfChildren (child # rest) currentDepth m =
     maxDepthOfChildren rest currentDepth (max m (calculateMaxDepth child (currentDepth + 1)))"

definition extractControlFlow :: "located \<Rightarrow> control_flow" where
  "extractControlFlow functionNode =
     \<lparr> hasEarlyReturns = (length (extractEarlyReturns functionNode) > 0),
       hasLoops = (length (extractLoops functionNode) > 0),
       hasConditionals = (length (extractConditionalGuards functionNode) > 0),
       hasBranching = (length (extractBranching functionNode) > 0),
       maxDepth = calculateMaxDepth (fst functionNode) 0 \<rparr>"

definition calculateComplexity :: "located \<Rightarrow> int" where
  "calculateComplexity functionNode =
     (let complexity = 1;
          complexity = complexity + int (length (extractConditionalGuards functionNode));
          complexity = complexity + int (length (extractLoops functionNode));
          complexity = complexity + int (length (extractEarlyReturns functionNode))
      in complexity)"

text \<open>The result of \<open>analyzeFunction\<close>: the change, spread, with the \<open>ast\<close> object.\<close>

record analysis =
  an_change :: function_change
  an_ast :: ast_facts

definition createBasicAnalysis :: "function_change \<Rightarrow> analysis" where
  "createBasicAnalysis change =
     \<lparr> an_change = change,
       an_ast = \<lparr> inputTypes = [], outputType = ''any'', conditionalGuards = [], loops = [],
                  branching = [], earlyReturns = [],
                  controlFlow = \<lparr> hasEarlyReturns = False, hasLoops = False,
                                  hasConditionals = False, hasBranching = False, maxDepth = 1 \<rparr>,
                  complexity = 1 \<rparr> \<rparr>"

definition getLanguageFromPath :: "string \<Rightarrow> language option" where
  "getLanguageFromPath filePath =
     map_of [(''.js'', JavaScript), (''.jsx'', JavaScript), (''.ts'', TypeScript),
             (''.tsx'', TypeScript), (''.py'', Python), (''.java'', Java), (''.rs'', Rust)]
       (extname filePath)"

text \<open>
  \<open>analyzeFunction\<close>, given the library and the file content that \<open>getFileContent\<close>
  returned (the empty string when the download failed). The library enters as two
  parameters: \<open>setLanguage\<close>, the call \<open>parser.setLanguage(language)\<close>, which throws
  when its argument is no language object, and \<open>parse\<close>. The parser is created and its
  language set before the \<open>try\<close> opens, so an exception of \<open>setLanguage\<close> leaves
  \<open>analyzeFunction\<close> (\<open>Inl\<close>); what follows runs inside the \<open>try\<close>, whose
  handler returns the basic analysis.
\<close>

definition analyzeFunction ::
  "(language \<Rightarrow> js_error + unit) \<Rightarrow> (language \<Rightarrow> string \<Rightarrow> js_error + node) \<Rightarrow> string
     \<Rightarrow> function_change \<Rightarrow> js_error + analysis" where
  "analyzeFunction setLanguage parse fileContent change =
     (case getLanguageFromPath (fc_filePath change) of
        None \<Rightarrow> Inr (createBasicAnalysis change)
      | Some language \<Rightarrow>
          (case setLanguage language of
             Inl error \<Rightarrow> Inl error
           | Inr ok \<Rightarrow>
               (case parse language fileContent of
                  Inl error \<Rightarrow> Inr (createBasicAnalysis change)
                | Inr rootNode \<Rightarrow>
                    (case findFunctionNode rootNode (fc_functionName change) of
                       None \<Rightarrow> Inr (createBasicAnalysis change)
                     | Some functionNode \<Rightarrow>
                         Inr \<lparr> an_change = change,
                               an_ast =
                                 \<lparr> inputTypes = extractInputTypes (fst functionNode) language,
                                   outputType = extractOutputType (fst functionNode) language,
                                   conditionalGuards = extractConditionalGuards functionNode,
                                   loops = extractLoops functionNode,
                                   branching = extractBranching functionNode,
                                   earlyReturns = extractEarlyReturns functionNode,
                                   controlFlow = extractControlFlow functionNode,
                                   complexity = calculateComplexity functionNode \<rparr> \<rparr>))))"

text \<open>
  \<open>extractAST\<close> catches what \<open>analyzeFunction\<close> throws, logs it and goes on with the
  next change: a change whose analysis throws has no entry in the result.
\<close>

definition extractAST ::
  "(language \<Rightarrow> js_error + unit) \<Rightarrow> (language \<Rightarrow> string \<Rightarrow> js_error + node)
     \<Rightarrow> (string \<Rightarrow> string) \<Rightarrow> function_change list \<Rightarrow> analysis list" where
  "extractAST setLanguage parse getFileContent functionChanges =
     concat (map (\<lambda>change.
        case analyzeFunction setLanguage parse (getFileContent (fc_filePath change)) change of
          Inr astAnalysis \<Rightarrow> [astAnalysis]
        | Inl error \<Rightarrow> []) functionChanges)"

text \<open>
  The five values of \<open>language\<close> are the modules that the source requires. The modules
  tree-sitter-javascript, tree-sitter-python, tree-sitter-java and tree-sitter-rust are
  language objects. The module tree-sitter-typescript is an object that holds two
  grammars, \<open>typescript\<close> and \<open>tsx\<close>, and is itself no language object: the source
  passes it whole, and \<open>setLanguage\<close> throws on it.
\<close>

definition module_setLanguage :: "language \<Rightarrow> js_error + unit" where
  "module_setLanguage language = (if language = TypeScript then Inl Error else Inr ())"

subsection \<open>Concrete inputs of the extractor\<close>

definition clamp_ts_change :: function_change where
  "clamp_ts_change =
     \<lparr> fc_filePath = ''src/clamp.ts'', fc_functionName = ''clamp'',
       fc_functionBody = ''+function clamp(x: number) {'', fc_lineNumber = 1,
       fc_changeType = ''added'', fc_comments = [], fc_testFiles = [] \<rparr>"

definition clamp_change :: function_change where
  "clamp_change =
     \<lparr> fc_filePath = ''src/clamp.js'', fc_functionName = ''clamp'',
       fc_functionBody = ''+function clamp(x) {'', fc_lineNumber = 1, fc_changeType = ''added'',
       fc_comments = [], fc_testFiles = [] \<rparr>"

section \<open>SpecAnalyzer (src/src/spec-analyzer.js)\<close>

definition cleanFunctionBody :: "string \<Rightarrow> string" where
  "cleanFunctionBody functionBody =
     js_join [newline]
       (filter (\<lambda>line. js_trim line \<noteq> [])
          (map (\<lambda>line. js_replace_first (seq [Bol, sign_group, Star is_space]) (\<lambda>caps. []) line)
             (js_split newline functionBody)))"

definition sa_getLanguageFromPath :: "string \<Rightarrow> string" where
  "sa_getLanguageFromPath filePath =
     (case map_of [(''.js'', ''JavaScript''), (''.jsx'', ''JavaScript''),
                   (''.ts'', ''TypeScript''), (''.tsx'', ''TypeScript''), (''.py'', ''Python''),
                   (''.java'', ''Java''), (''.rs'', ''Rust''), (''.cpp'', ''C++''), (''.c'', ''C'')]
             (extname filePath) of
        Some l \<Rightarrow> l
      | None \<Rightarrow> ''Unknown'')"

definition prepareLLMContext :: "analysis \<Rightarrow> llm_context" where
  "prepareLLMContext a =
     \<lparr> c_functionName = fc_functionName (an_change a),
       c_functionBody = cleanFunctionBody (fc_functionBody (an_change a)),
       c_inputTypes = Some (inputTypes (an_ast a)),
       c_outputType = outputType (an_ast a),
       c_conditionalGuards = Some (conditionalGuards (an_ast a)),
       c_loops = loops (an_ast a),
       c_branching = branching (an_ast a),
       c_earlyReturns = Some (earlyReturns (an_ast a)),
       c_controlFlow = Some (controlFlow (an_ast a)),
       c_complexity = Some (complexity (an_ast a)),
       c_comments = js_join [newline] (map cm_text (fc_comments (an_change a))),
       c_language = sa_getLanguageFromPath (fc_filePath (an_change a)) \<rparr>"

record suggestion =
  sg_functionName :: string
  sg_filePath :: string
  sg_lineNumber :: nat
  sg_preconditions :: "jsval list"
  sg_postconditions :: "jsval list"
  sg_invariants :: "jsval list"
  sg_edgeCases :: "jsval list"
  sg_confidence :: real
  sg_reasoning :: jsval

text \<open>
  The analyzer: its client, its cache (a \<open>Map\<close> from the key \<open>filePath:functionName\<close>
  to the suggestion stored for it), and the log of the backend calls made so far.
\<close>

record spec_analyzer =
  llmClient :: llm_client
  specCache :: "string \<Rightarrow> suggestion option"
  backendCalls :: "backend_id list"

definition callLLM ::
  "spec_analyzer \<Rightarrow> llm_context \<Rightarrow> spec_record \<times> backend_id list" where
  "callLLM st context = generateSpec (llmClient st) (backendCalls st) context"

definition generateSpecSuggestion ::
  "analysis \<Rightarrow> spec_analyzer \<Rightarrow> suggestion \<times> spec_analyzer" where
  "generateSpecSuggestion a st =
     (let \<comment> \<open>Check cache first\<close>
          cacheKey = fc_filePath (an_change a) @ '':'' @ fc_functionName (an_change a)
      in case specCache st cacheKey of
           Some cached \<Rightarrow> (cached, st)
         | None \<Rightarrow>
             (let llmContext = prepareLLMContext a;
                  (spec, calls) = callLLM st llmContext;
                  suggestion =
                    \<lparr> sg_functionName = fc_functionName (an_change a),
                      sg_filePath = fc_filePath (an_change a),
                      sg_lineNumber = fc_lineNumber (an_change a),
                      sg_preconditions = preconditions spec,
                      sg_postconditions = postconditions spec,
                      sg_invariants = invariants spec,
                      sg_edgeCases = edgeCases spec,
                      sg_confidence = (if confidence spec \<noteq> 0 then confidence spec else 0),
                      sg_reasoning = js_or (reasoning spec) (JStr []) \<rparr>
              in (suggestion,
                  st \<lparr> specCache := (specCache st)(cacheKey := Some suggestion),
                       backendCalls := calls \<rparr>)))"

fun analyzeChanges :: "analysis list \<Rightarrow> spec_analyzer \<Rightarrow> suggestion list \<times> spec_analyzer" where
  "analyzeChanges [] st = ([], st)"
| "analyzeChanges (a # rest) st =
     (let (suggestion, st1) = generateSpecSuggestion a st;
          (suggestions, st2) = analyzeChanges rest st1
      in (suggestion # suggestions, st2))"

subsection \<open>Concrete inputs of the analyzer\<close>

text \<open>A backend that answers its first call and throws on every later one.\<close>

definition once_backend :: backend where
  "once_backend n ctx = (if n = 0 then Content (Some valid_response) else Throws)"

definition fresh_analyzer :: spec_analyzer where
  "fresh_analyzer =
     \<lparr> llmClient = \<lparr> openai = Some once_backend, anthropic = None \<rparr>,
       specCache = (\<lambda>key. None), backendCalls = [] \<rparr>"

definition clamp_analysis :: analysis where
  "clamp_analysis = createBasicAnalysis clamp_change"

section \<open>Properties of the deterministic fallback and of the backend path\<close>




text \<open>
  Claim C1, as stated (three preconditions), fails: each parameter of type number that
  is required yields two preconditions, one for its type and one for being non-null.
\<close>

theorem fallback_scenario_A_not_three_preconditions:
  "length (preconditions (generateMockSpec scenario_A)) \<noteq> 3"
  by (simp add: generateMockSpec_def scenario_A_def empty_context_def numeric_parameter_def
      mock_preconditions_def Let_def)

text \<open>
  Claim C1, amended: for three required parameters of type number, no early returns and
  complexity 1, the fallback yields exactly six preconditions (a type precondition and a
  non-null precondition for each parameter, in parameter order) and confidence 85.
\<close>

theorem fallback_three_numeric_parameters:
  assumes "c_inputTypes ctx = Some [a, b, c]"
    and "\<forall>p \<in> set [a, b, c]. it_type p = ''number'' \<and> it_required p"
    and "c_earlyReturns ctx = Some []"
    and "c_complexity ctx = Some 1"
  shows "preconditions (generateMockSpec ctx) =
      [JStr (it_name a @ '' is of type number''), JStr (it_name a @ '' is not null/undefined''),
       JStr (it_name b @ '' is of type number''), JStr (it_name b @ '' is not null/undefined''),
       JStr (it_name c @ '' is of type number''), JStr (it_name c @ '' is not null/undefined'')]
     \<and> length (preconditions (generateMockSpec ctx)) = 6
     \<and> postconditions (generateMockSpec ctx) = [JStr ''Function completes execution'']
     \<and> confidence (generateMockSpec ctx) = 85"
  using assms
  by (simp add: generateMockSpec_def mock_preconditions_def mock_postconditions_def Let_def)

theorem fallback_three_numeric_parameters_witness:
  "length (preconditions (generateMockSpec scenario_A)) = 6
   \<and> preconditions (generateMockSpec scenario_A) =
       [JStr ''principal is of type number'', JStr ''principal is not null/undefined'',
        JStr ''rate is of type number'', JStr ''rate is not null/undefined'',
        JStr ''time is of type number'', JStr ''time is not null/undefined'']
   \<and> confidence (generateMockSpec scenario_A) = 85"
  using fallback_three_numeric_parameters [of scenario_A "numeric_parameter ''principal''"
      "numeric_parameter ''rate''" "numeric_parameter ''time''"]
  by (simp add: scenario_A_def empty_context_def numeric_parameter_def)







text \<open>
  Claim C10: every record of the deterministic fallback has its four list fields
  non-empty; a derived list that is empty is replaced by a fixed one-element placeholder.
\<close>

theorem fallback_lists_never_empty:
  "preconditions (generateMockSpec ctx) \<noteq> []
   \<and> postconditions (generateMockSpec ctx) \<noteq> []
   \<and> invariants (generateMockSpec ctx) \<noteq> []
   \<and> edgeCases (generateMockSpec ctx) \<noteq> []
   \<and> (mock_preconditions (case c_inputTypes ctx of None \<Rightarrow> [] | Some v \<Rightarrow> v) = [] \<longrightarrow>
        preconditions (generateMockSpec ctx) = [JStr ''No specific preconditions identified''])
   \<and> (mock_postconditions (case c_earlyReturns ctx of None \<Rightarrow> [] | Some v \<Rightarrow> v) = [] \<longrightarrow>
        postconditions (generateMockSpec ctx) = [JStr ''Function completes execution''])
   \<and> (mock_invariants (case c_complexity ctx of None \<Rightarrow> 1 | Some v \<Rightarrow> v) = [] \<longrightarrow>
        invariants (generateMockSpec ctx) = [JStr ''No specific invariants identified''])
   \<and> (mock_edgeCases (case c_inputTypes ctx of None \<Rightarrow> [] | Some v \<Rightarrow> v)
          (case c_conditionalGuards ctx of None \<Rightarrow> [] | Some v \<Rightarrow> v) = [] \<longrightarrow>
        edgeCases (generateMockSpec ctx) = [JStr ''Consider null/undefined inputs''])"
  by (simp add: generateMockSpec_def Let_def)

theorem fallback_lists_never_empty_witness:
  "preconditions (generateMockSpec empty_context) = [JStr ''No specific preconditions identified'']
   \<and> postconditions (generateMockSpec empty_context) = [JStr ''Function completes execution'']
   \<and> invariants (generateMockSpec empty_context) = [JStr ''No specific invariants identified'']
   \<and> edgeCases (generateMockSpec empty_context) = [JStr ''Consider null/undefined inputs'']"
  using fallback_lists_never_empty [of empty_context]
  by (simp add: empty_context_def mock_preconditions_def mock_postconditions_def
      mock_invariants_def mock_edgeCases_def)

section \<open>Properties of the diff segmenter\<close>

text \<open>
  On the single line of scenario B the first pattern matches, the capture opens and
  closes on the same line (the braces balance), and the line enters the body twice: once
  when the capture opens and once when the body is continued.
\<close>

lemma extractFunctions_scenario_B:
  "extractFunctions scenario_B_line = [added_only_func]"
  by (simp add: extractFunctions_def scenario_B_line_def ef_step_def functionPatterns_def
       js_match_def seq_def lit_def sign_group_def kw_def name_paren_def is_space_def is_word_def
       countBraces_def js_trim_def newline_def dollar_def cap_def Let_def added_only_func_def)

lemma extractFileDiff_scenario_B:
  "extractFileDiff scenario_B_diff ''math.js'' = scenario_B_line"
  by (simp add: extractFileDiff_def scenario_B_diff_def scenario_B_line_def newline_def
      startsWith_def)

lemma determineChangeType_added_only: "determineChangeType added_only_func = ''added''"
  by (simp add: determineChangeType_def added_only_func_def scenario_B_line_def newline_def
      startsWith_def)

lemma determineChangeType_cases:
  "determineChangeType func =
     (if list_ex (\<lambda>line. startsWith line ''+'') (js_split newline (f_body func))
      then (if list_ex (\<lambda>line. startsWith line ''-'') (js_split newline (f_body func))
            then ''modified'' else ''added'')
      else (if list_ex (\<lambda>line. startsWith line ''-'') (js_split newline (f_body func))
            then ''removed'' else ''modified''))"
  by (simp add: determineChangeType_def Let_def)

text \<open>
  Claim C8: the file diff whose only hunk line is \<open>+function add(a,b){return a+b;}\<close>
  is segmented into exactly one FunctionChange, named add, of change type added; and for
  any capture, lines that start with \<open>+\<close> and none with \<open>-\<close> give added, lines
  that start with \<open>-\<close> and none with \<open>+\<close> give removed, both give modified.
\<close>

theorem segment_scenario_B_one_added_function:
  "length (extractFunctions scenario_B_line) = 1
   \<and> map (\<lambda>c. (fc_functionName c, fc_changeType c))
        (parseFileDiff findTestFiles \<lparr> filename = ''math.js'', status = st \<rparr> scenario_B_diff)
      = [(''add'', ''added'')]
   \<and> (list_ex (\<lambda>line. startsWith line ''+'') (js_split newline (f_body func))
        \<and> \<not> list_ex (\<lambda>line. startsWith line ''-'') (js_split newline (f_body func))
        \<longrightarrow> determineChangeType func = ''added'')
   \<and> (\<not> list_ex (\<lambda>line. startsWith line ''+'') (js_split newline (f_body func))
        \<and> list_ex (\<lambda>line. startsWith line ''-'') (js_split newline (f_body func))
        \<longrightarrow> determineChangeType func = ''removed'')
   \<and> (list_ex (\<lambda>line. startsWith line ''+'') (js_split newline (f_body func))
        \<and> list_ex (\<lambda>line. startsWith line ''-'') (js_split newline (f_body func))
        \<longrightarrow> determineChangeType func = ''modified'')"
proof -
  have one: "length (extractFunctions scenario_B_line) = 1"
    by (simp add: extractFunctions_scenario_B)
  have seg: "map (\<lambda>c. (fc_functionName c, fc_changeType c))
        (parseFileDiff findTestFiles \<lparr> filename = ''math.js'', status = st \<rparr> scenario_B_diff)
      = [(''add'', ''added'')]"
  proof -
    have ne: "scenario_B_line \<noteq> []" by (simp add: scenario_B_line_def)
    show ?thesis
      using ne
      by (simp add: parseFileDiff_def extractFileDiff_scenario_B extractFunctions_scenario_B
          determineChangeType_added_only Let_def) (simp add: added_only_func_def)
  qed
  show ?thesis
    using one seg by (simp add: determineChangeType_cases)
qed

theorem segment_scenario_B_one_added_function_witness:
  "determineChangeType added_only_func = ''added''
   \<and> determineChangeType removed_only_func = ''removed''
   \<and> determineChangeType mixed_func = ''modified''"
  using segment_scenario_B_one_added_function [of "\<lambda>f. []" "''modified''" added_only_func]
        segment_scenario_B_one_added_function [of "\<lambda>f. []" "''modified''" removed_only_func]
        segment_scenario_B_one_added_function [of "\<lambda>f. []" "''modified''" mixed_func]
  by (simp add: added_only_func_def removed_only_func_def mixed_func_def scenario_B_line_def
      newline_def startsWith_def)

section \<open>Properties of the theorem-skeleton emitter\<close>

lemma invariant_lemma_at:
  assumes "i < length invs"
  shows "generateHelperLemmas invs edges ! i =
     ''lemma invariant_'' @ string_of_nat (i + 1) @ ''_'' @ sanitizeName (invs ! i) @ '' : '' @
     convertPredicate (invs ! i) @ '' := '' @ unproved"
  using assms
  by (simp add: generateHelperLemmas_def convertToLeanPredicates_def nth_append Let_def)

lemma edge_case_lemma_at:
  assumes "j < length edges"
  shows "generateHelperLemmas invs edges ! (length invs + j) =
     ''lemma edge_case_'' @ string_of_nat (j + 1) @ ''_'' @ sanitizeName (edges ! j) @ '' : '' @
     convertPredicate (edges ! j) @ '' := '' @ unproved"
  using assms
  by (simp add: generateHelperLemmas_def convertToLeanPredicates_def nth_append Let_def)

text \<open>The first invariant and the last edge case of scenario D, converted and sanitized.\<close>

lemma convert_balance: "convertPredicate ''balance >= 0'' = ''balance '' @ sym_ge @ '' 0''"
  unfolding convertPredicate_def Let_def
  by (simp add: js_replace_all_def is_word_def word_group_def lit_def seq_def dollar_def cap_def
      sym_ne_def sym_ge_def sym_le_def sym_not_def dquote_def)

lemma convert_boundary:
  "convertPredicate ''Handle boundary conditions'' = ''Handle boundary conditions''"
  unfolding convertPredicate_def Let_def
  by (simp add: js_replace_all_def is_word_def word_group_def lit_def seq_def dollar_def cap_def
      sym_ne_def sym_ge_def sym_le_def sym_not_def dquote_def)

lemma sanitize_balance: "sanitizeName ''balance >= 0'' = ''balance_0''"
  unfolding sanitizeName_def by (simp add: js_replace_all_def is_word_def toLowerCase_def)

lemma sanitize_boundary:
  "sanitizeName ''Handle boundary conditions'' = ''handle_boundary_conditions''"
  unfolding sanitizeName_def by (simp add: js_replace_all_def is_word_def toLowerCase_def)

text \<open>
  Claim C4: for N invariants and M edge cases, \<open>generateHelperLemmas\<close> emits exactly
  N + M lemmas, 5 for the 2 invariants and 3 edge cases of scenario D: the lemma at
  position \<open>i < N\<close> is the one of invariant \<open>i\<close>, the lemma at position \<open>N + j\<close>
  the one of edge case \<open>j < M\<close>, and each ends with the keyword that leaves it unproved.
\<close>

theorem helper_lemmas_count:
  "length (generateHelperLemmas invs edges) = length invs + length edges
   \<and> length (generateHelperLemmas scenario_D_invariants scenario_D_edgeCases) = 5
   \<and> (i < length invs \<longrightarrow>
        generateHelperLemmas invs edges ! i =
          ''lemma invariant_'' @ string_of_nat (i + 1) @ ''_'' @ sanitizeName (invs ! i) @
          '' : '' @ convertPredicate (invs ! i) @ '' := '' @ unproved)
   \<and> (j < length edges \<longrightarrow>
        generateHelperLemmas invs edges ! (length invs + j) =
          ''lemma edge_case_'' @ string_of_nat (j + 1) @ ''_'' @ sanitizeName (edges ! j) @
          '' : '' @ convertPredicate (edges ! j) @ '' := '' @ unproved)"
proof -
  have count: "length (generateHelperLemmas invs edges) = length invs + length edges"
    by (simp add: generateHelperLemmas_def)
  have five: "length (generateHelperLemmas scenario_D_invariants scenario_D_edgeCases) = 5"
    by (simp add: generateHelperLemmas_def scenario_D_invariants_def scenario_D_edgeCases_def)
  show ?thesis
    using count five invariant_lemma_at [of i invs edges] edge_case_lemma_at [of j edges invs]
    by blast
qed

theorem helper_lemmas_count_witness:
  "generateHelperLemmas scenario_D_invariants scenario_D_edgeCases ! 0 =
     ''lemma invariant_1_balance_0 : balance '' @ sym_ge @ '' 0 := '' @ unproved
   \<and> generateHelperLemmas scenario_D_invariants scenario_D_edgeCases ! 4 =
     ''lemma edge_case_3_handle_boundary_conditions : Handle boundary conditions := '' @ unproved"
proof -
  have i: "0 < length scenario_D_invariants"
    by (simp add: scenario_D_invariants_def)
  have j: "2 < length scenario_D_edgeCases"
    by (simp add: scenario_D_edgeCases_def)
  have pos: "length scenario_D_invariants + 2 = 4"
    by (simp add: scenario_D_invariants_def)
  have first: "scenario_D_invariants ! 0 = ''balance >= 0''"
    by (simp add: scenario_D_invariants_def)
  have last: "scenario_D_edgeCases ! 2 = ''Handle boundary conditions''"
    by (simp add: scenario_D_edgeCases_def)
  have one: "string_of_nat (0 + 1) = ''1''" and three: "string_of_nat (2 + 1) = ''3''"
    by (simp_all add: digit_char_def)
  show ?thesis
    using helper_lemmas_count [of scenario_D_invariants scenario_D_edgeCases 0 2] i j
    unfolding pos first last one three convert_balance convert_boundary sanitize_balance
      sanitize_boundary
    by simp
qed

section \<open>Properties of the drift detector\<close>

lemma compareWithSpec_hasDrift:
  "hasDrift (compareWithSpec current spec) =
     ((case es_complexity spec of None \<Rightarrow> False
        | Some c \<Rightarrow> real_of_int (ia_complexity current) > real_of_int c * 1.5)
      \<or> Some (ia_hasValidation current) \<noteq> es_hasValidation spec)"
  by (simp add: compareWithSpec_def Let_def)

lemma compareWithSpec_details:
  "details (compareWithSpec current spec) =
     (if (case es_complexity spec of None \<Rightarrow> False
           | Some c \<Rightarrow> real_of_int (ia_complexity current) > real_of_int c * 1.5)
      then [''Function complexity increased significantly''] else []) @
     (if Some (ia_hasValidation current) \<noteq> es_hasValidation spec
      then [''Input validation patterns changed''] else [])"
  by (simp add: compareWithSpec_def Let_def)

lemma compareWithSpec_confidence:
  "d_confidence (compareWithSpec current spec) =
     min 100 (length (details (compareWithSpec current spec)) * 25)"
  by (simp add: compareWithSpec_def Let_def)

lemma hasDrift_iff_details:
  "hasDrift (compareWithSpec current spec) = (details (compareWithSpec current spec) \<noteq> [])"
  unfolding compareWithSpec_hasDrift compareWithSpec_details by simp

lemma analyzeFunctionDrift_reasons:
  "dr_hasDrift (analyzeFunctionDrift functionData existingSpec) \<longrightarrow>
     (\<exists>reasons. dr_driftDetails (analyzeFunctionDrift functionData existingSpec) = Some reasons
        \<and> reasons \<noteq> [])"
  by (cases existingSpec) (simp_all add: analyzeFunctionDrift_def Let_def hasDrift_iff_details)

text \<open>The body of the scenario function has two guards and two returns: complexity 4.\<close>

lemma analyze_scenario_C_function:
  "analyzeCurrentImplementation (fd_functionBody scenario_C_function) = scenario_C_current"
  by (simp add: analyzeCurrentImplementation_def scenario_C_function_def scenario_C_current_def
      sc_calculateComplexity_def js_match_count_def seq_def lit_def is_space_def newline_def
      startsWith_def Let_def)

lemma drift_scenario_C_function:
  "analyzeFunctionDrift scenario_C_function (Some scenario_C_spec) =
     \<lparr> dr_functionName = ''check'', dr_filePath = ''src/check.js'', dr_hasDrift = True,
       dr_reason = None, dr_previousSpec = Some scenario_C_spec,
       dr_currentImplementation = Some scenario_C_current,
       dr_driftDetails = Some [''Function complexity increased significantly''],
       dr_confidence = Some 25 \<rparr>"
  by (simp add: analyzeFunctionDrift_def analyze_scenario_C_function Let_def
      compareWithSpec_hasDrift compareWithSpec_details compareWithSpec_confidence)
     (simp add: scenario_C_current_def scenario_C_spec_def scenario_C_function_def)

text \<open>
  A stored specification as \<open>parseSpecFile\<close> builds it has neither a complexity nor a
  validation flag; against it the comparison always reports exactly the validation
  reason, whatever the current facts are.
\<close>

lemma drift_against_spec_without_fingerprint:
  assumes "es_complexity spec = None" and "es_hasValidation spec = None"
  shows "compareWithSpec current spec =
     \<lparr> hasDrift = True, details = [''Input validation patterns changed''], d_confidence = 25 \<rparr>"
  using assms by (simp add: compareWithSpec_def Let_def)




text \<open>
  Claim C6: a result with \<open>hasDrift\<close> has a non-empty list of reasons, for the
  comparison itself, for the result of \<open>analyzeFunctionDrift\<close> and for every result
  that \<open>detectDrift\<close> reports; \<open>hasDrift\<close> is set exactly when the complexity
  condition or the validation condition holds, each of which appends its reason.
\<close>

theorem drift_has_reasons:
  "hasDrift (compareWithSpec current spec) = (details (compareWithSpec current spec) \<noteq> [])
   \<and> hasDrift (compareWithSpec current spec) =
       ((\<exists>c. es_complexity spec = Some c
             \<and> real_of_int (ia_complexity current) > real_of_int c * 1.5)
        \<or> Some (ia_hasValidation current) \<noteq> es_hasValidation spec)
   \<and> (dr_hasDrift (analyzeFunctionDrift functionData existingSpec) \<longrightarrow>
        (\<exists>reasons. dr_driftDetails (analyzeFunctionDrift functionData existingSpec) = Some reasons
            \<and> reasons \<noteq> []))
   \<and> (\<forall>r \<in> set (detectDrift findExistingSpec changedFunctions).
         \<exists>reasons. dr_driftDetails r = Some reasons \<and> reasons \<noteq> [])"
proof -
  have a: "hasDrift (compareWithSpec current spec) =
       ((\<exists>c. es_complexity spec = Some c
             \<and> real_of_int (ia_complexity current) > real_of_int c * 1.5)
        \<or> Some (ia_hasValidation current) \<noteq> es_hasValidation spec)"
    unfolding compareWithSpec_hasDrift by (cases "es_complexity spec") simp_all
  have b: "\<forall>r \<in> set (detectDrift findExistingSpec changedFunctions).
         \<exists>reasons. dr_driftDetails r = Some reasons \<and> reasons \<noteq> []"
    using analyzeFunctionDrift_reasons by (auto simp: detectDrift_def)
  show ?thesis
    using a b hasDrift_iff_details analyzeFunctionDrift_reasons by blast
qed

theorem drift_has_reasons_witness:
  "dr_hasDrift (analyzeFunctionDrift scenario_C_function (Some scenario_C_spec))
   \<and> dr_driftDetails (analyzeFunctionDrift scenario_C_function (Some scenario_C_spec)) =
       Some [''Function complexity increased significantly'']
   \<and> map dr_driftDetails (detectDrift (\<lambda>name. Some scenario_C_spec) [scenario_C_function]) =
       [Some [''Function complexity increased significantly'']]"
  using drift_has_reasons [of scenario_C_current scenario_C_spec scenario_C_function
      "Some scenario_C_spec" "\<lambda>name. Some scenario_C_spec" "[scenario_C_function]"]
  by (simp add: detectDrift_def drift_scenario_C_function)

section \<open>Properties of the control-flow extractor\<close>

text \<open>Whenever \<open>analyzeFunction\<close> returns, the complexity it returns is 1 plus the
  numbers of guards, loops and early returns it returns, hence at least 1.\<close>

lemma analyzeFunction_complexity_sum:
  assumes "analyzeFunction setLanguage parse fileContent change = Inr a"
  shows "complexity (an_ast a) =
     1 + int (length (conditionalGuards (an_ast a))) + int (length (loops (an_ast a)))
       + int (length (earlyReturns (an_ast a)))"
  using assms
  by (auto simp: analyzeFunction_def createBasicAnalysis_def calculateComplexity_def Let_def
      split: option.splits sum.splits)

lemma analyzeFunction_degraded:
  assumes "getLanguageFromPath (fc_filePath change) = None
     \<or> (\<exists>language e. getLanguageFromPath (fc_filePath change) = Some language
            \<and> setLanguage language = Inr ()
            \<and> parse language fileContent = Inl e)
     \<or> (\<exists>language rootNode. getLanguageFromPath (fc_filePath change) = Some language
            \<and> setLanguage language = Inr ()
            \<and> parse language fileContent = Inr rootNode
            \<and> findFunctionNode rootNode (fc_functionName change) = None)"
  shows "analyzeFunction setLanguage parse fileContent change = Inr (createBasicAnalysis change)"
  using assms by (auto simp: analyzeFunction_def)

lemma analyzeFunction_raises:
  assumes "getLanguageFromPath (fc_filePath change) = Some language"
    and "setLanguage language = Inl e"
  shows "analyzeFunction setLanguage parse fileContent change = Inl e"
  using assms by (simp add: analyzeFunction_def)

lemma clamp_ts_language: "getLanguageFromPath (fc_filePath clamp_ts_change) = Some TypeScript"
  by (simp add: getLanguageFromPath_def clamp_ts_change_def extname_def basename_def Let_def)

text \<open>
  Claim C7 (for every FunctionChange the extractor returns facts with complexity at
  least 1, degraded facts with complexity 1 on a failure, without raising) fails on the
  code for every change in a \<open>.ts\<close> or \<open>.tsx\<close> file: setting the parser's language
  throws before the \<open>try\<close> opens, so \<open>analyzeFunction\<close> raises instead of returning
  the basic analysis, and \<open>extractAST\<close> returns no facts at all for the change.
\<close>

theorem typescript_change_raises:
  "analyzeFunction module_setLanguage parse fileContent clamp_ts_change = Inl Error
   \<and> extractAST module_setLanguage parse getFileContent [clamp_ts_change] = []"
proof -
  have "analyzeFunction module_setLanguage parse content clamp_ts_change = Inl Error" for content
    using clamp_ts_language by (rule analyzeFunction_raises) (simp add: module_setLanguage_def)
  then show ?thesis by (simp add: extractAST_def)
qed

section \<open>Properties of the suggestion cache\<close>

lemma generateSpecSuggestion_caches:
  "specCache (snd (generateSpecSuggestion a st))
      (fc_filePath (an_change a) @ '':'' @ fc_functionName (an_change a))
    = Some (fst (generateSpecSuggestion a st))"
  by (simp add: generateSpecSuggestion_def Let_def split: option.splits prod.splits)

lemma generateSpecSuggestion_hit:
  "specCache st (fc_filePath (an_change a) @ '':'' @ fc_functionName (an_change a)) = Some s
   \<Longrightarrow> generateSpecSuggestion a st = (s, st)"
  by (simp add: generateSpecSuggestion_def Let_def)

lemma fresh_analyzer_first_call:
  "backendCalls (snd (generateSpecSuggestion clamp_analysis fresh_analyzer)) = [OpenAI]"
  by (simp add: generateSpecSuggestion_def fresh_analyzer_def callLLM_def generateSpec_def
      generateWith_def once_backend_def Let_def split: prod.splits)

text \<open>
  Claim C9: a second request for the same key \<open>filePath:functionName\<close>, made after
  the first has returned, returns the record the first returned and leaves the analyzer
  as it was: the cache is unchanged and no backend is called again.
\<close>

theorem second_request_is_cached:
  assumes "fc_filePath (an_change a2) = fc_filePath (an_change a1)"
    and "fc_functionName (an_change a2) = fc_functionName (an_change a1)"
  shows "fst (generateSpecSuggestion a2 (snd (generateSpecSuggestion a1 st)))
           = fst (generateSpecSuggestion a1 st)
     \<and> snd (generateSpecSuggestion a2 (snd (generateSpecSuggestion a1 st)))
           = snd (generateSpecSuggestion a1 st)
     \<and> backendCalls (snd (generateSpecSuggestion a2 (snd (generateSpecSuggestion a1 st))))
           = backendCalls (snd (generateSpecSuggestion a1 st))"
proof -
  have "specCache (snd (generateSpecSuggestion a1 st))
          (fc_filePath (an_change a2) @ '':'' @ fc_functionName (an_change a2))
        = Some (fst (generateSpecSuggestion a1 st))"
    using assms generateSpecSuggestion_caches [of a1 st] by simp
  then have "generateSpecSuggestion a2 (snd (generateSpecSuggestion a1 st))
        = (fst (generateSpecSuggestion a1 st), snd (generateSpecSuggestion a1 st))"
    by (rule generateSpecSuggestion_hit)
  then show ?thesis by simp
qed

theorem second_request_is_cached_witness:
  "fst (generateSpecSuggestion clamp_analysis
          (snd (generateSpecSuggestion clamp_analysis fresh_analyzer)))
     = fst (generateSpecSuggestion clamp_analysis fresh_analyzer)
   \<and> backendCalls (snd (generateSpecSuggestion clamp_analysis
          (snd (generateSpecSuggestion clamp_analysis fresh_analyzer)))) = [OpenAI]"
  using second_request_is_cached [of clamp_analysis clamp_analysis fresh_analyzer]
    fresh_analyzer_first_call
  by simp

end
